theory Spec2Isabelle
  imports Main "HOL-Library.Word"
begin

unbundle bit_operations_syntax

section \<open>The data model of health-old.go\<close>

text \<open>
  The file declares plain structs with JSON tags and eight small methods. Every struct
  becomes a record whose fields keep the Go names, prefixed by an abbreviation of the
  struct (record fields share one name space). Go strings are byte sequences, so they
  are \<open>string\<close> (a list of 8-bit characters). A slice is a list: every slice field of
  the file is tagged \<open>omitempty\<close>, for which a nil and an empty slice behave alike.
\<close>

subsection \<open>Basic types\<close>

type_synonym int32 = "32 word"
type_synonym int64 = "64 word"
type_synonym uint64 = "64 word"
type_synonym goint = "64 word"

text \<open>
  A \<open>float64\<close> or \<open>float32\<close> is its IEEE 754 bit pattern (\<open>math.Float64bits\<close>): one sign
  bit, 11 (8) exponent bits, 52 (23) fraction bits. Only the classification of a float
  is computed here, never its arithmetic.
\<close>

type_synonym float64 = "64 word"
type_synonym float32 = "32 word"

definition exponent64 :: "float64 \<Rightarrow> 64 word" where
  "exponent64 f = drop_bit 52 f AND 0x7FF"

definition exponent32 :: "float32 \<Rightarrow> 32 word" where
  "exponent32 f = drop_bit 23 f AND 0xFF"

text \<open>\<open>math.IsNaN(f) || math.IsInf(f, 0)\<close>: the exponent bits are all ones.\<close>

definition nan_or_inf64 :: "float64 \<Rightarrow> bool" where
  "nan_or_inf64 f = (exponent64 f = 0x7FF)"

definition nan_or_inf32 :: "float32 \<Rightarrow> bool" where
  "nan_or_inf32 f = (exponent32 f = 0xFF)"

text \<open>\<open>f == 0\<close>: both zeros compare equal to 0, so the sign bit is masked out.\<close>

definition zero64 :: "float64 \<Rightarrow> bool" where
  "zero64 f = (f AND 0x7FFFFFFFFFFFFFFF = 0)"

definition zero32 :: "float32 \<Rightarrow> bool" where
  "zero32 f = (f AND 0x7FFFFFFF = 0)"

text \<open>
  \<open>time.Time\<close> by what \<open>Time.MarshalJSON\<close> reads of it: the calendar date and clock of
  the instant in the time's own location, and that location's offset from UTC in
  seconds. The zero \<open>Time\<close> is January 1, year 1, 00:00:00 UTC.
\<close>

record Time =
  t_Year :: int
  t_Month :: nat
  t_Day :: nat
  t_Hour :: nat
  t_Minute :: nat
  t_Second :: nat
  t_Nanosecond :: nat
  t_Offset :: int

definition zero_Time :: Time where
  "zero_Time = \<lparr>t_Year = 1, t_Month = 1, t_Day = 1, t_Hour = 0, t_Minute = 0,
     t_Second = 0, t_Nanosecond = 0, t_Offset = 0\<rparr>"

subsection \<open>Performance records\<close>

record Latency =
  lat_Avg :: float64
  lat_Max :: float64
  lat_Min :: float64
  lat_Percentile50 :: float64
  lat_Percentile90 :: float64
  lat_Percentile99 :: float64

record Throughput =
  thr_Avg :: uint64
  thr_Max :: uint64
  thr_Min :: uint64
  thr_Percentile50 :: uint64
  thr_Percentile90 :: uint64
  thr_Percentile99 :: uint64

record DrivePerfInfo =
  dpi_Error :: string
  dpi_Path :: string
  dpi_Latency :: Latency
  dpi_Throughput :: Throughput

text \<open>
  \<open>NodeCommon\<close> is embedded in three structs but declared in another file of the
  package, so its type is the parameter \<open>'n\<close>.
\<close>

record 'n DrivePerfInfos =
  dps_NodeCommon :: 'n
  dps_SerialPerf :: "DrivePerfInfo list"
  dps_ParallelPerf :: "DrivePerfInfo list"

record 'n PeerNetPerfInfo =
  pnp_NodeCommon :: 'n
  pnp_Latency :: Latency
  pnp_Throughput :: Throughput

record 'n NetPerfInfo =
  npi_NodeCommon :: 'n
  npi_RemotePeers :: "'n PeerNetPerfInfo list"

record 'n PerfInfo =
  pi_Drives :: "'n DrivePerfInfos list"
  pi_Net :: "'n NetPerfInfo list"
  pi_NetParallel :: "'n NetPerfInfo"

subsection \<open>Per-node records\<close>

record SysProcess =
  sp_Pid :: int32
  sp_Background :: bool
  sp_CPUPercent :: float64
  sp_Children :: "int32 list"
  sp_CmdLine :: string
  sp_ConnectionCount :: goint
  sp_CreateTime :: int64
  sp_Cwd :: string
  sp_Exe :: string
  sp_Gids :: "int32 list"
  sp_IsRunning :: bool
  sp_MemPercent :: float32
  sp_Name :: string
  sp_Nice :: int32
  sp_NumFds :: int32
  sp_NumThreads :: int32
  sp_Parent :: int32
  sp_Ppid :: int32
  sp_Status :: string
  sp_Tgid :: int32
  sp_Uids :: "int32 list"
  sp_Username :: string

record ServerProcInfo =
  spi_Addr :: string
  spi_Processes :: "SysProcess list"
  spi_Error :: string

record ServerMemInfo =
  smi_Addr :: string
  smi_Error :: string

record ServerOsInfo =
  soi_Addr :: string
  soi_Error :: string

record ServerCPUInfo =
  sci_Addr :: string
  sci_Error :: string

record ServerDiskHwInfo =
  sdi_Addr :: string
  sdi_Error :: string

record SysHealthInfo =
  shi_CPUInfo :: "ServerCPUInfo list"
  shi_DiskHwInfo :: "ServerDiskHwInfo list"
  shi_OsInfo :: "ServerOsInfo list"
  shi_MemInfo :: "ServerMemInfo list"
  shi_ProcInfo :: "ServerProcInfo list"
  shi_Error :: string

subsection \<open>The two report envelopes\<close>

record HealthInfoV0 =
  v0_TimeStamp :: Time
  v0_Error :: string
  v0_Sys :: SysHealthInfo

text \<open>
  \<open>SysInfo\<close> and \<open>MinioHealthInfo\<close> are declared in other files of the package: their
  types are the parameters \<open>'s\<close> and \<open>'m\<close>.
\<close>

record ('s, 'm, 'n) HealthInfoV2 =
  v2_Version :: string
  v2_Error :: string
  v2_TimeStamp :: Time
  v2_Sys :: 's
  v2_Perf :: "'n PerfInfo"
  v2_Minio :: 'm

section \<open>The accessors\<close>

definition GetError :: "('s, 'm, 'n) HealthInfoV2 \<Rightarrow> string" where
  "GetError info = v2_Error info"

definition GetStatus :: "('s, 'm, 'n) HealthInfoV2 \<Rightarrow> string" where
  "GetStatus info = (if v2_Error info \<noteq> '''' then ''error'' else ''success'')"


definition GetOwner :: "SysProcess \<Rightarrow> string" where
  "GetOwner sp = sp_Username sp"

section \<open>encoding/json: from a value to its JSON document\<close>

text \<open>
  \<open>String\<close> and \<open>JSON\<close> call \<open>json.Marshal\<close> and \<open>json.MarshalIndent\<close> of the Go standard
  library, which walk the struct by reflection and follow the field tags. The tags are
  read off the source; the library's rules are modelled as its documentation gives
  them. Marshalling is split in two: the value becomes a JSON document (this section),
  and the document is written as text (the next one).
\<close>

datatype error = UnsupportedValueError | MarshalerError | DeclaredElsewhereError

datatype json =
    JNull
  | JBool bool
  | JInt int
  | JFloat64 float64
  | JFloat32 float32
  | JString string
  | JArray "json list"
  | JObject "(string \<times> json) list"

type_synonym members = "(string \<times> json) list"

subsection \<open>Empty values\<close>

text \<open>
  \<open>isEmptyValue\<close> decides what \<open>omitempty\<close> omits: "false, 0, a nil pointer, a nil
  interface value, and any empty array, slice, map, or string". A struct is never
  empty, whatever its fields hold. The argument is the reflected kind of the field with
  what the test reads of it (for a slice, its length).
\<close>

datatype reflect_value =
    RString string
  | RSlice nat
  | RBool bool
  | RInt32 int32
  | RInt64 int64
  | RFloat64 float64
  | RFloat32 float32
  | RStruct

fun isEmptyValue :: "reflect_value \<Rightarrow> bool" where
  "isEmptyValue (RString s) = (length s = 0)"
| "isEmptyValue (RSlice n) = (n = 0)"
| "isEmptyValue (RBool b) = (\<not> b)"
| "isEmptyValue (RInt32 i) = (i = 0)"
| "isEmptyValue (RInt64 i) = (i = 0)"
| "isEmptyValue (RFloat64 f) = zero64 f"
| "isEmptyValue (RFloat32 f) = zero32 f"
| "isEmptyValue RStruct = False"

subsection \<open>Encoders of the basic types\<close>

definition stringEncoder :: "string \<Rightarrow> error + json" where
  "stringEncoder s = Inr (JString s)"

definition boolEncoder :: "bool \<Rightarrow> error + json" where
  "boolEncoder b = Inr (JBool b)"

definition int32Encoder :: "int32 \<Rightarrow> error + json" where
  "int32Encoder i = Inr (JInt (sint i))"

definition int64Encoder :: "int64 \<Rightarrow> error + json" where
  "int64Encoder i = Inr (JInt (sint i))"

definition uint64Encoder :: "uint64 \<Rightarrow> error + json" where
  "uint64Encoder u = Inr (JInt (uint u))"

text \<open>A NaN or an infinity has no JSON form: \<open>floatEncoder\<close> fails on it.\<close>

definition float64Encoder :: "float64 \<Rightarrow> error + json" where
  "float64Encoder f = (if nan_or_inf64 f then Inl UnsupportedValueError else Inr (JFloat64 f))"

definition float32Encoder :: "float32 \<Rightarrow> error + json" where
  "float32Encoder f = (if nan_or_inf32 f then Inl UnsupportedValueError else Inr (JFloat32 f))"

text \<open>The first element or field that fails aborts the whole encoding.\<close>

fun sequence :: "(error + 'a) list \<Rightarrow> error + 'a list" where
  "sequence [] = Inr []"
| "sequence (x # xs) =
     (case x of
        Inl e \<Rightarrow> Inl e
      | Inr v \<Rightarrow> (case sequence xs of Inl e \<Rightarrow> Inl e | Inr vs \<Rightarrow> Inr (v # vs)))"

definition sliceEncoder :: "('a \<Rightarrow> error + json) \<Rightarrow> 'a list \<Rightarrow> error + json" where
  "sliceEncoder enc xs =
     (case sequence (map enc xs) of Inl e \<Rightarrow> Inl e | Inr js \<Rightarrow> Inr (JArray js))"

text \<open>
  A struct field contributes one member to the object, or none when it is tagged
  \<open>omitempty\<close> and empty (its encoder is then not run).
\<close>

definition field :: "string \<Rightarrow> error + json \<Rightarrow> error + members" where
  "field name v = (case v of Inl e \<Rightarrow> Inl e | Inr j \<Rightarrow> Inr [(name, j)])"

definition field_omitempty :: "string \<Rightarrow> reflect_value \<Rightarrow> error + json \<Rightarrow> error + members" where
  "field_omitempty name rv v = (if isEmptyValue rv then Inr [] else field name v)"

definition structEncoder :: "(error + members) list \<Rightarrow> error + json" where
  "structEncoder fs =
     (case sequence fs of Inl e \<Rightarrow> Inl e | Inr ms \<Rightarrow> Inr (JObject (concat ms)))"

subsection \<open>time.Time\<close>

text \<open>
  \<open>Time.MarshalJSON\<close> writes the time in the layout RFC3339Nano,
  \<open>2006-01-02T15:04:05.999999999Z07:00\<close>, as a JSON string, and fails when the year is
  outside 0..9999 or (Go 1.20 and later) the zone offset is 24 hours or more.
\<close>

definition digit :: "nat \<Rightarrow> char" where
  "digit n = ''0123456789'' ! (n mod 10)"

function digits :: "nat \<Rightarrow> string" where
  "digits n = (if n < 10 then [digit n] else digits (n div 10) @ [digit n])"
  by pat_completeness auto
termination
  by (relation "measure id") auto

declare digits.simps [simp del]

text \<open>\<open>appendInt(b, x, width)\<close>: a sign for a negative number, then zero-padded digits.\<close>

definition appendInt :: "int \<Rightarrow> nat \<Rightarrow> string" where
  "appendInt x width =
     (let ds = digits (nat \<bar>x\<bar>)
      in (if x < 0 then ''-'' else []) @ replicate (width - length ds) CHR ''0'' @ ds)"

fun trim_zeros :: "string \<Rightarrow> string" where
  "trim_zeros [] = []"
| "trim_zeros (c # cs) =
     (let r = trim_zeros cs in if r = [] \<and> c = CHR ''0'' then [] else c # r)"

text \<open>The fraction \<open>.999999999\<close>: nine digits with the trailing zeros cut, nothing for 0.\<close>

definition appendNano :: "nat \<Rightarrow> string" where
  "appendNano nanosec =
     (if nanosec = 0 then []
      else (let ds = trim_zeros (appendInt (int nanosec) 9)
            in if ds = [] then [] else ''.'' @ ds))"

text \<open>The zone in whole minutes, rounded towards zero as Go's integer division does.\<close>

definition zone_minutes :: "int \<Rightarrow> int" where
  "zone_minutes offset = \<bar>offset\<bar> div 60"

definition appendZone :: "int \<Rightarrow> string" where
  "appendZone offset =
     (if offset = 0 then ''Z''
      else (let zone = zone_minutes offset
            in (if offset \<le> - 60 then ''-'' else ''+'')
               @ appendInt (zone div 60) 2 @ '':'' @ appendInt (zone mod 60) 2))"

definition appendFormatRFC3339 :: "Time \<Rightarrow> string" where
  "appendFormatRFC3339 t =
     appendInt (t_Year t) 4 @ ''-'' @ appendInt (int (t_Month t)) 2 @ ''-''
     @ appendInt (int (t_Day t)) 2 @ ''T'' @ appendInt (int (t_Hour t)) 2 @ '':''
     @ appendInt (int (t_Minute t)) 2 @ '':'' @ appendInt (int (t_Second t)) 2
     @ appendNano (t_Nanosecond t) @ appendZone (t_Offset t)"

definition timeEncoder :: "Time \<Rightarrow> error + json" where
  "timeEncoder t =
     (if t_Year t < 0 \<or> 9999 < t_Year t then Inl MarshalerError
      else if t_Offset t \<noteq> 0 \<and> 24 \<le> zone_minutes (t_Offset t) div 60 then Inl MarshalerError
      else Inr (JString (appendFormatRFC3339 t)))"

subsection \<open>The structs of the file, field by field as tagged\<close>

definition enc_Latency :: "Latency \<Rightarrow> error + json" where
  "enc_Latency l = structEncoder
     [field ''avg'' (float64Encoder (lat_Avg l)),
      field ''max'' (float64Encoder (lat_Max l)),
      field ''min'' (float64Encoder (lat_Min l)),
      field ''percentile_50'' (float64Encoder (lat_Percentile50 l)),
      field ''percentile_90'' (float64Encoder (lat_Percentile90 l)),
      field ''percentile_99'' (float64Encoder (lat_Percentile99 l))]"

definition enc_Throughput :: "Throughput \<Rightarrow> error + json" where
  "enc_Throughput t = structEncoder
     [field ''avg'' (uint64Encoder (thr_Avg t)),
      field ''max'' (uint64Encoder (thr_Max t)),
      field ''min'' (uint64Encoder (thr_Min t)),
      field ''percentile_50'' (uint64Encoder (thr_Percentile50 t)),
      field ''percentile_90'' (uint64Encoder (thr_Percentile90 t)),
      field ''percentile_99'' (uint64Encoder (thr_Percentile99 t))]"

definition enc_DrivePerfInfo :: "DrivePerfInfo \<Rightarrow> error + json" where
  "enc_DrivePerfInfo d = structEncoder
     [field_omitempty ''error'' (RString (dpi_Error d)) (stringEncoder (dpi_Error d)),
      field ''path'' (stringEncoder (dpi_Path d)),
      field_omitempty ''latency'' RStruct (enc_Latency (dpi_Latency d)),
      field_omitempty ''throughput'' RStruct (enc_Throughput (dpi_Throughput d))]"

text \<open>
  What the rest of package madmin declares: the encodings of \<open>SysInfo\<close> and
  \<open>MinioHealthInfo\<close>, and the members that the embedded \<open>NodeCommon\<close> contributes to
  the object of the struct embedding it (the fields of an embedded struct are written
  as if they were fields of the outer struct, before the outer struct's own).
\<close>

record ('s, 'm, 'n) package =
  enc_SysInfo :: "'s \<Rightarrow> error + json"
  enc_MinioHealthInfo :: "'m \<Rightarrow> error + json"
  members_NodeCommon :: "'n \<Rightarrow> error + members"

definition enc_DrivePerfInfos :: "('n \<Rightarrow> error + members) \<Rightarrow> 'n DrivePerfInfos \<Rightarrow> error + json" where
  "enc_DrivePerfInfos nc d = structEncoder
     [nc (dps_NodeCommon d),
      field_omitempty ''serial_perf'' (RSlice (length (dps_SerialPerf d)))
        (sliceEncoder enc_DrivePerfInfo (dps_SerialPerf d)),
      field_omitempty ''parallel_perf'' (RSlice (length (dps_ParallelPerf d)))
        (sliceEncoder enc_DrivePerfInfo (dps_ParallelPerf d))]"

definition enc_PeerNetPerfInfo :: "('n \<Rightarrow> error + members) \<Rightarrow> 'n PeerNetPerfInfo \<Rightarrow> error + json" where
  "enc_PeerNetPerfInfo nc p = structEncoder
     [nc (pnp_NodeCommon p),
      field_omitempty ''latency'' RStruct (enc_Latency (pnp_Latency p)),
      field_omitempty ''throughput'' RStruct (enc_Throughput (pnp_Throughput p))]"

definition enc_NetPerfInfo :: "('n \<Rightarrow> error + members) \<Rightarrow> 'n NetPerfInfo \<Rightarrow> error + json" where
  "enc_NetPerfInfo nc n = structEncoder
     [nc (npi_NodeCommon n),
      field_omitempty ''remote_peers'' (RSlice (length (npi_RemotePeers n)))
        (sliceEncoder (enc_PeerNetPerfInfo nc) (npi_RemotePeers n))]"

definition enc_PerfInfo :: "('n \<Rightarrow> error + members) \<Rightarrow> 'n PerfInfo \<Rightarrow> error + json" where
  "enc_PerfInfo nc p = structEncoder
     [field_omitempty ''drives'' (RSlice (length (pi_Drives p)))
        (sliceEncoder (enc_DrivePerfInfos nc) (pi_Drives p)),
      field_omitempty ''net'' (RSlice (length (pi_Net p)))
        (sliceEncoder (enc_NetPerfInfo nc) (pi_Net p)),
      field_omitempty ''net_parallel'' RStruct (enc_NetPerfInfo nc (pi_NetParallel p))]"

definition enc_SysProcess :: "SysProcess \<Rightarrow> error + json" where
  "enc_SysProcess p = structEncoder
     [field ''pid'' (int32Encoder (sp_Pid p)),
      field_omitempty ''background'' (RBool (sp_Background p)) (boolEncoder (sp_Background p)),
      field_omitempty ''cpupercent'' (RFloat64 (sp_CPUPercent p))
        (float64Encoder (sp_CPUPercent p)),
      field_omitempty ''children'' (RSlice (length (sp_Children p)))
        (sliceEncoder int32Encoder (sp_Children p)),
      field_omitempty ''cmd'' (RString (sp_CmdLine p)) (stringEncoder (sp_CmdLine p)),
      field_omitempty ''connection_count'' (RInt64 (sp_ConnectionCount p))
        (int64Encoder (sp_ConnectionCount p)),
      field_omitempty ''createtime'' (RInt64 (sp_CreateTime p))
        (int64Encoder (sp_CreateTime p)),
      field_omitempty ''cwd'' (RString (sp_Cwd p)) (stringEncoder (sp_Cwd p)),
      field_omitempty ''exe'' (RString (sp_Exe p)) (stringEncoder (sp_Exe p)),
      field_omitempty ''gids'' (RSlice (length (sp_Gids p)))
        (sliceEncoder int32Encoder (sp_Gids p)),
      field_omitempty ''isrunning'' (RBool (sp_IsRunning p)) (boolEncoder (sp_IsRunning p)),
      field_omitempty ''mempercent'' (RFloat32 (sp_MemPercent p))
        (float32Encoder (sp_MemPercent p)),
      field_omitempty ''name'' (RString (sp_Name p)) (stringEncoder (sp_Name p)),
      field_omitempty ''nice'' (RInt32 (sp_Nice p)) (int32Encoder (sp_Nice p)),
      field_omitempty ''numfds'' (RInt32 (sp_NumFds p)) (int32Encoder (sp_NumFds p)),
      field_omitempty ''numthreads'' (RInt32 (sp_NumThreads p))
        (int32Encoder (sp_NumThreads p)),
      field_omitempty ''parent'' (RInt32 (sp_Parent p)) (int32Encoder (sp_Parent p)),
      field_omitempty ''ppid'' (RInt32 (sp_Ppid p)) (int32Encoder (sp_Ppid p)),
      field_omitempty ''status'' (RString (sp_Status p)) (stringEncoder (sp_Status p)),
      field_omitempty ''tgid'' (RInt32 (sp_Tgid p)) (int32Encoder (sp_Tgid p)),
      field_omitempty ''uids'' (RSlice (length (sp_Uids p)))
        (sliceEncoder int32Encoder (sp_Uids p)),
      field_omitempty ''username'' (RString (sp_Username p)) (stringEncoder (sp_Username p))]"

definition enc_ServerProcInfo :: "ServerProcInfo \<Rightarrow> error + json" where
  "enc_ServerProcInfo s = structEncoder
     [field ''addr'' (stringEncoder (spi_Addr s)),
      field_omitempty ''processes'' (RSlice (length (spi_Processes s)))
        (sliceEncoder enc_SysProcess (spi_Processes s)),
      field_omitempty ''error'' (RString (spi_Error s)) (stringEncoder (spi_Error s))]"

definition enc_ServerMemInfo :: "ServerMemInfo \<Rightarrow> error + json" where
  "enc_ServerMemInfo s = structEncoder
     [field ''addr'' (stringEncoder (smi_Addr s)),
      field_omitempty ''error'' (RString (smi_Error s)) (stringEncoder (smi_Error s))]"

definition enc_ServerOsInfo :: "ServerOsInfo \<Rightarrow> error + json" where
  "enc_ServerOsInfo s = structEncoder
     [field ''addr'' (stringEncoder (soi_Addr s)),
      field_omitempty ''error'' (RString (soi_Error s)) (stringEncoder (soi_Error s))]"

definition enc_ServerCPUInfo :: "ServerCPUInfo \<Rightarrow> error + json" where
  "enc_ServerCPUInfo s = structEncoder
     [field ''addr'' (stringEncoder (sci_Addr s)),
      field_omitempty ''error'' (RString (sci_Error s)) (stringEncoder (sci_Error s))]"

definition enc_ServerDiskHwInfo :: "ServerDiskHwInfo \<Rightarrow> error + json" where
  "enc_ServerDiskHwInfo s = structEncoder
     [field ''addr'' (stringEncoder (sdi_Addr s)),
      field_omitempty ''error'' (RString (sdi_Error s)) (stringEncoder (sdi_Error s))]"

definition enc_SysHealthInfo :: "SysHealthInfo \<Rightarrow> error + json" where
  "enc_SysHealthInfo s = structEncoder
     [field_omitempty ''cpus'' (RSlice (length (shi_CPUInfo s)))
        (sliceEncoder enc_ServerCPUInfo (shi_CPUInfo s)),
      field_omitempty ''drives'' (RSlice (length (shi_DiskHwInfo s)))
        (sliceEncoder enc_ServerDiskHwInfo (shi_DiskHwInfo s)),
      field_omitempty ''osinfos'' (RSlice (length (shi_OsInfo s)))
        (sliceEncoder enc_ServerOsInfo (shi_OsInfo s)),
      field_omitempty ''meminfos'' (RSlice (length (shi_MemInfo s)))
        (sliceEncoder enc_ServerMemInfo (shi_MemInfo s)),
      field_omitempty ''procinfos'' (RSlice (length (shi_ProcInfo s)))
        (sliceEncoder enc_ServerProcInfo (shi_ProcInfo s)),
      field_omitempty ''error'' (RString (shi_Error s)) (stringEncoder (shi_Error s))]"

definition enc_HealthInfoV0 :: "HealthInfoV0 \<Rightarrow> error + json" where
  "enc_HealthInfoV0 info = structEncoder
     [field_omitempty ''timestamp'' RStruct (timeEncoder (v0_TimeStamp info)),
      field_omitempty ''error'' (RString (v0_Error info)) (stringEncoder (v0_Error info)),
      field_omitempty ''sys'' RStruct (enc_SysHealthInfo (v0_Sys info))]"

definition enc_HealthInfoV2 ::
  "('s, 'm, 'n) package \<Rightarrow> ('s, 'm, 'n) HealthInfoV2 \<Rightarrow> error + json" where
  "enc_HealthInfoV2 pkg info = structEncoder
     [field ''version'' (stringEncoder (v2_Version info)),
      field_omitempty ''error'' (RString (v2_Error info)) (stringEncoder (v2_Error info)),
      field_omitempty ''timestamp'' RStruct (timeEncoder (v2_TimeStamp info)),
      field_omitempty ''sys'' RStruct (enc_SysInfo pkg (v2_Sys info)),
      field_omitempty ''perf'' RStruct (enc_PerfInfo (members_NodeCommon pkg) (v2_Perf info)),
      field_omitempty ''minio'' RStruct (enc_MinioHealthInfo pkg (v2_Minio info))]"

section \<open>encoding/json: from the document to its text\<close>

subsection \<open>String literals\<close>

text \<open>
  \<open>utf8.DecodeRuneInString\<close>, as far as the encoder needs it: the number of bytes of
  the well-formed UTF-8 sequence at the head of the bytes, 0 when there is none (the
  decoder then reports \<open>RuneError\<close> with width 1).
\<close>

definition locb_hicb :: "nat \<Rightarrow> bool" where
  "locb_hicb b = (0x80 \<le> b \<and> b \<le> 0xBF)"

definition accept_second :: "nat \<Rightarrow> nat \<Rightarrow> bool" where
  "accept_second b0 b1 =
     (if b0 = 0xE0 then 0xA0 \<le> b1 \<and> b1 \<le> 0xBF
      else if b0 = 0xED then 0x80 \<le> b1 \<and> b1 \<le> 0x9F
      else if b0 = 0xF0 then 0x90 \<le> b1 \<and> b1 \<le> 0xBF
      else if b0 = 0xF4 then 0x80 \<le> b1 \<and> b1 \<le> 0x8F
      else locb_hicb b1)"

fun rune_size :: "nat list \<Rightarrow> nat" where
  "rune_size [] = 0"
| "rune_size (b0 # bs) =
     (if b0 < 0x80 then 1
      else if 0xC2 \<le> b0 \<and> b0 \<le> 0xDF then
        (case bs of b1 # _ \<Rightarrow> if accept_second b0 b1 then 2 else 0 | _ \<Rightarrow> 0)
      else if 0xE0 \<le> b0 \<and> b0 \<le> 0xEF then
        (case bs of
           b1 # b2 # _ \<Rightarrow> if accept_second b0 b1 \<and> locb_hicb b2 then 3 else 0
         | _ \<Rightarrow> 0)
      else if 0xF0 \<le> b0 \<and> b0 \<le> 0xF4 then
        (case bs of
           b1 # b2 # b3 # _ \<Rightarrow>
             if accept_second b0 b1 \<and> locb_hicb b2 \<and> locb_hicb b3 then 4 else 0
         | _ \<Rightarrow> 0)
      else 0)"

definition hex :: "nat \<Rightarrow> char" where
  "hex n = ''0123456789abcdef'' ! (n mod 16)"

text \<open>
  One step of the loop of \<open>appendString\<close> (with \<open>escapeHTML\<close> set, as \<open>Marshal\<close> sets
  it) on a non-empty rest of the string: what it appends, and how many bytes it
  consumes. Quote and backslash get a backslash; backspace, form feed, newline,
  carriage return and tab their short escapes; the other control characters and
  \<open><\<close>, \<open>>\<close>, \<open>&\<close> are written \<open>\u00XX\<close>; an ill-formed byte becomes the escape of U+FFFD;
  U+2028 and U+2029 are written as escapes; everything else is copied.
\<close>

definition appendString_step :: "char \<Rightarrow> string \<Rightarrow> string \<times> nat" where
  "appendString_step c cs =
     (let b = (of_char c :: nat) in
      if b < 0x80 then
        ((if c = CHR 0x5C \<or> c = CHR 0x22 then [CHR 0x5C, c]
          else if c = CHR 0x08 then [CHR 0x5C, CHR ''b'']
          else if c = CHR 0x0C then [CHR 0x5C, CHR ''f'']
          else if c = CHR 0x0A then [CHR 0x5C, CHR ''n'']
          else if c = CHR 0x0D then [CHR 0x5C, CHR ''r'']
          else if c = CHR 0x09 then [CHR 0x5C, CHR ''t'']
          else if b < 0x20 \<or> c = CHR ''<'' \<or> c = CHR ''>'' \<or> c = CHR ''&'' then
            [CHR 0x5C, CHR ''u'', CHR ''0'', CHR ''0'', hex (b div 16), hex b]
          else [c]), 1)
      else
        (let size = rune_size (map of_char (take 4 (c # cs))) in
         if size = 0 then ([CHR 0x5C, CHR ''u'', CHR ''f'', CHR ''f'', CHR ''f'', CHR ''d''], 1)
         else if take 3 (c # cs) = [CHR 0xE2, CHR 0x80, CHR 0xA8] then
           ([CHR 0x5C, CHR ''u'', CHR ''2'', CHR ''0'', CHR ''2'', CHR ''8''], 3)
         else if take 3 (c # cs) = [CHR 0xE2, CHR 0x80, CHR 0xA9] then
           ([CHR 0x5C, CHR ''u'', CHR ''2'', CHR ''0'', CHR ''2'', CHR ''9''], 3)
         else (take size (c # cs), size)))"

fun appendString_loop :: "string \<Rightarrow> string" where
  "appendString_loop [] = []"
| "appendString_loop (c # cs) =
     (case appendString_step c cs of
        (out, n) \<Rightarrow> out @ appendString_loop (drop (n - 1) cs))"

definition appendString :: "string \<Rightarrow> string" where
  "appendString s = [CHR 0x22] @ appendString_loop s @ [CHR 0x22]"

subsection \<open>Numbers\<close>

text \<open>
  An integer is written in decimal. A float is written by \<open>strconv.AppendFloat\<close> with
  the shortest digits that read back as the same float; that routine is not modelled,
  its result is a parameter.
\<close>

record strconv =
  AppendFloat64 :: "float64 \<Rightarrow> string"
  AppendFloat32 :: "float32 \<Rightarrow> string"

definition appendInt10 :: "int \<Rightarrow> string" where
  "appendInt10 i = (if i < 0 then ''-'' else []) @ digits (nat \<bar>i\<bar>)"

subsection \<open>The compact text\<close>

fun intercalate :: "string \<Rightarrow> string list \<Rightarrow> string" where
  "intercalate sep [] = []"
| "intercalate sep [x] = x"
| "intercalate sep (x # y # ys) = x @ sep @ intercalate sep (y # ys)"

fun render :: "strconv \<Rightarrow> json \<Rightarrow> string" where
  "render sc JNull = ''null''"
| "render sc (JBool b) = (if b then ''true'' else ''false'')"
| "render sc (JInt i) = appendInt10 i"
| "render sc (JFloat64 f) = AppendFloat64 sc f"
| "render sc (JFloat32 f) = AppendFloat32 sc f"
| "render sc (JString s) = appendString s"
| "render sc (JArray js) = ''['' @ intercalate '','' (map (render sc) js) @ '']''"
| "render sc (JObject ms) =
     ''{'' @ intercalate '','' (map (\<lambda>m. appendString (fst m) @ '':'' @ render sc (snd m)) ms)
     @ ''}''"

subsection \<open>Indentation\<close>

text \<open>
  \<open>json.MarshalIndent\<close> marshals, then runs \<open>appendIndent\<close> over the bytes. That loop
  asks the package's scanner what each byte is. On a JSON text the scanner answers
  \<open>scanContinue\<close> inside a string literal, \<open>scanSkipSpace\<close> for white space outside of
  one, and for every other byte the loop looks at the byte itself; so the scanner is
  modelled by whether the position is inside a string literal.
\<close>

datatype scan = Outside | InString | InStringEsc

fun step :: "scan \<Rightarrow> char \<Rightarrow> scan" where
  "step Outside c = (if c = CHR 0x22 then InString else Outside)"
| "step InString c =
     (if c = CHR 0x5C then InStringEsc else if c = CHR 0x22 then Outside else InString)"
| "step InStringEsc c = InString"

definition isSpace :: "char \<Rightarrow> bool" where
  "isSpace c = (c = CHR '' '' \<or> c = CHR 0x09 \<or> c = CHR 0x0D \<or> c = CHR 0x0A)"

definition appendNewline :: "string \<Rightarrow> string \<Rightarrow> int \<Rightarrow> string" where
  "appendNewline prefix indent depth =
     [CHR 0x0A] @ prefix @ concat (replicate (nat depth) indent)"

fun appendIndent :: "string \<Rightarrow> string \<Rightarrow> scan \<Rightarrow> bool \<Rightarrow> int \<Rightarrow> string \<Rightarrow> string" where
  "appendIndent prefix indent s needIndent depth [] = []"
| "appendIndent prefix indent s needIndent depth (c # src) =
     (if s = Outside \<and> isSpace c then appendIndent prefix indent s needIndent depth src
      else
        (let closing = (s = Outside \<and> (c = CHR ''}'' \<or> c = CHR '']''));
             opened = (needIndent \<and> \<not> closing);
             depth1 = (if opened then depth + 1 else depth);
             newline = (if opened then appendNewline prefix indent depth1 else []);
             need1 = (needIndent \<and> closing)
         in newline @
           (if s \<noteq> Outside then
              c # appendIndent prefix indent (step s c) need1 depth1 src
            else if c = CHR ''{'' \<or> c = CHR ''['' then
              c # appendIndent prefix indent Outside True depth1 src
            else if c = CHR '','' then
              c # appendNewline prefix indent depth1
                @ appendIndent prefix indent Outside need1 depth1 src
            else if c = CHR '':'' then
              c # CHR '' '' # appendIndent prefix indent Outside need1 depth1 src
            else if c = CHR ''}'' \<or> c = CHR '']'' then
              (if need1 then c # appendIndent prefix indent Outside False depth1 src
               else appendNewline prefix indent (depth1 - 1)
                      @ c # appendIndent prefix indent Outside False (depth1 - 1) src)
            else c # appendIndent prefix indent (step s c) need1 depth1 src)))"

definition Indent :: "string \<Rightarrow> string \<Rightarrow> string \<Rightarrow> string" where
  "Indent src prefix indent = appendIndent prefix indent Outside False 0 src"

text \<open>
  The content of a JSON text: the text without the white space outside of string
  literals, which no JSON parser reads (it is what \<open>json.Compact\<close> keeps).
\<close>

fun significant :: "scan \<Rightarrow> string \<Rightarrow> string" where
  "significant s [] = []"
| "significant s (c # cs) =
     (if s = Outside \<and> isSpace c then significant s cs else c # significant (step s c) cs)"

section \<open>String and JSON\<close>

text \<open>
  Both methods panic when marshalling returns an error (\<open>panic(err) // This never
  happens.\<close>) and return the bytes as a string otherwise.
\<close>

datatype 'a outcome = Returns 'a | Panics error

definition Marshal :: "strconv \<Rightarrow> error + json \<Rightarrow> error + string" where
  "Marshal sc v = (case v of Inl e \<Rightarrow> Inl e | Inr j \<Rightarrow> Inr (render sc j))"

definition MarshalIndent :: "strconv \<Rightarrow> error + json \<Rightarrow> string \<Rightarrow> string \<Rightarrow> error + string" where
  "MarshalIndent sc v prefix indent =
     (case Marshal sc v of Inl e \<Rightarrow> Inl e | Inr b \<Rightarrow> Inr (Indent b prefix indent))"

definition or_panic :: "error + string \<Rightarrow> string outcome" where
  "or_panic r = (case r of Inl err \<Rightarrow> Panics err | Inr data \<Rightarrow> Returns data)"

definition String_V2 ::
  "strconv \<Rightarrow> ('s, 'm, 'n) package \<Rightarrow> ('s, 'm, 'n) HealthInfoV2 \<Rightarrow> string outcome" where
  "String_V2 sc pkg info = or_panic (Marshal sc (enc_HealthInfoV2 pkg info))"

definition JSON_V2 ::
  "strconv \<Rightarrow> ('s, 'm, 'n) package \<Rightarrow> ('s, 'm, 'n) HealthInfoV2 \<Rightarrow> string outcome" where
  "JSON_V2 sc pkg info =
     or_panic (MarshalIndent sc (enc_HealthInfoV2 pkg info) '' '' ''    '')"

definition String_V0 :: "strconv \<Rightarrow> HealthInfoV0 \<Rightarrow> string outcome" where
  "String_V0 sc info = or_panic (Marshal sc (enc_HealthInfoV0 info))"

definition JSON_V0 :: "strconv \<Rightarrow> HealthInfoV0 \<Rightarrow> string outcome" where
  "JSON_V0 sc info = or_panic (MarshalIndent sc (enc_HealthInfoV0 info) '' '' ''    '')"

section \<open>Calling a method\<close>


section \<open>Sample values\<close>

text \<open>The zero values \<open>SysHealthInfo{}\<close>, \<open>HealthInfoV0{}\<close>, \<open>SysProcess{}\<close>, and so on.\<close>

definition zero_SysHealthInfo :: SysHealthInfo where
  "zero_SysHealthInfo = \<lparr>shi_CPUInfo = [], shi_DiskHwInfo = [], shi_OsInfo = [],
     shi_MemInfo = [], shi_ProcInfo = [], shi_Error = []\<rparr>"

definition zero_HealthInfoV0 :: HealthInfoV0 where
  "zero_HealthInfoV0 = \<lparr>v0_TimeStamp = zero_Time, v0_Error = [], v0_Sys = zero_SysHealthInfo\<rparr>"

definition zero_SysProcess :: SysProcess where
  "zero_SysProcess = \<lparr>sp_Pid = 0, sp_Background = False, sp_CPUPercent = 0, sp_Children = [],
     sp_CmdLine = [], sp_ConnectionCount = 0, sp_CreateTime = 0, sp_Cwd = [], sp_Exe = [],
     sp_Gids = [], sp_IsRunning = False, sp_MemPercent = 0, sp_Name = [], sp_Nice = 0,
     sp_NumFds = 0, sp_NumThreads = 0, sp_Parent = 0, sp_Ppid = 0, sp_Status = [],
     sp_Tgid = 0, sp_Uids = [], sp_Username = []\<rparr>"

definition zero_Latency :: Latency where
  "zero_Latency = \<lparr>lat_Avg = 0, lat_Max = 0, lat_Min = 0, lat_Percentile50 = 0,
     lat_Percentile90 = 0, lat_Percentile99 = 0\<rparr>"

definition zero_Throughput :: Throughput where
  "zero_Throughput = \<lparr>thr_Avg = 0, thr_Max = 0, thr_Min = 0, thr_Percentile50 = 0,
     thr_Percentile90 = 0, thr_Percentile99 = 0\<rparr>"

definition zero_DrivePerfInfo :: DrivePerfInfo where
  "zero_DrivePerfInfo = \<lparr>dpi_Error = [], dpi_Path = [], dpi_Latency = zero_Latency,
     dpi_Throughput = zero_Throughput\<rparr>"

text \<open>
  A stand-in for the rest of the package, used for closed examples only: \<open>SysInfo\<close>,
  \<open>MinioHealthInfo\<close> and \<open>NodeCommon\<close> as structs without fields.
\<close>

definition unit_package :: "(unit, unit, unit) package" where
  "unit_package = \<lparr>enc_SysInfo = (\<lambda>_. Inr (JObject [])),
     enc_MinioHealthInfo = (\<lambda>_. Inr (JObject [])),
     members_NodeCommon = (\<lambda>_. Inr [])\<rparr>"

definition zero_PerfInfo :: "unit PerfInfo" where
  "zero_PerfInfo = \<lparr>pi_Drives = [], pi_Net = [],
     pi_NetParallel = \<lparr>npi_NodeCommon = (), npi_RemotePeers = []\<rparr>\<rparr>"

definition zero_HealthInfoV2 :: "(unit, unit, unit) HealthInfoV2" where
  "zero_HealthInfoV2 = \<lparr>v2_Version = [], v2_Error = [], v2_TimeStamp = zero_Time,
     v2_Sys = (), v2_Perf = zero_PerfInfo, v2_Minio = ()\<rparr>"

text \<open>
  \<open>math.NaN()\<close> has the bits \<open>0x7FF8000000000001\<close>. The first report below holds one
  process whose CPU percentage is NaN; the second one drive whose average latency is
  NaN; the third differs from the zero report in the year of its timestamp, 10000.
\<close>

definition NaN :: float64 where
  "NaN = 0x7FF8000000000001"

definition nan_HealthInfoV0 :: HealthInfoV0 where
  "nan_HealthInfoV0 = zero_HealthInfoV0\<lparr>v0_Sys := zero_SysHealthInfo\<lparr>shi_ProcInfo :=
     [\<lparr>spi_Addr = ''node1'',
       spi_Processes = [zero_SysProcess\<lparr>sp_Pid := 1, sp_CPUPercent := NaN\<rparr>],
       spi_Error = []\<rparr>]\<rparr>\<rparr>"

definition nan_HealthInfoV2 :: "(unit, unit, unit) HealthInfoV2" where
  "nan_HealthInfoV2 = zero_HealthInfoV2\<lparr>v2_Version := ''2'', v2_Perf := zero_PerfInfo\<lparr>pi_Drives :=
     [\<lparr>dps_NodeCommon = (),
       dps_SerialPerf = [zero_DrivePerfInfo\<lparr>dpi_Path := ''/data1'',
         dpi_Latency := zero_Latency\<lparr>lat_Avg := NaN\<rparr>\<rparr>],
       dps_ParallelPerf = []\<rparr>]\<rparr>\<rparr>"

definition year10000_HealthInfoV2 :: "(unit, unit, unit) HealthInfoV2" where
  "year10000_HealthInfoV2 = zero_HealthInfoV2\<lparr>v2_TimeStamp := zero_Time\<lparr>t_Year := 10000\<rparr>\<rparr>"

section \<open>Indentation adds white space only\<close>







lemma significant_space: "significant Outside (CHR '' '' # rest) = significant Outside rest"
  by (simp add: isSpace_def)
declare appendIndent.simps [simp del]



section \<open>Properties of the accessors\<close>

text \<open>
  C1. For every HealthInfoV2 report, GetStatus returns "error" if and only if the
  top-level Error field is a non-empty string, and "success" otherwise.
\<close>

theorem C1_GetStatus_error_iff:
  "(GetStatus info = ''error'' \<longleftrightarrow> v2_Error info \<noteq> '''')
   \<and> (GetStatus info = ''success'' \<longleftrightarrow> v2_Error info = '''')
   \<and> (GetStatus info = ''error'' \<or> GetStatus info = ''success'')"
  by (simp add: GetStatus_def)

text \<open>
  C5. The status depends on the top-level Error field only: two reports that agree on
  Error get the same status, whatever their other fields (the nested per-node error
  strings among them) hold.
\<close>

theorem C5_GetStatus_depends_on_Error_only:
  "v2_Error a = v2_Error b \<Longrightarrow> GetStatus a = GetStatus b"
  by (simp add: GetStatus_def)

theorem C5_GetStatus_depends_on_Error_only_witness:
  "v2_Error \<lparr>v2_Version = ''2'', v2_Error = ''disk read timeout'', v2_TimeStamp = zero_Time,
      v2_Sys = True, v2_Perf = \<lparr>pi_Drives = [], pi_Net = [],
        pi_NetParallel = \<lparr>npi_NodeCommon = ''node1'', npi_RemotePeers = []\<rparr>\<rparr>,
      v2_Minio = (0::nat)\<rparr>
   = v2_Error \<lparr>v2_Version = ''3'', v2_Error = ''disk read timeout'',
      v2_TimeStamp = zero_Time\<lparr>t_Year := 2022\<rparr>,
      v2_Sys = False, v2_Perf = \<lparr>pi_Drives = [], pi_Net = [],
        pi_NetParallel = \<lparr>npi_NodeCommon = ''node2'', npi_RemotePeers = []\<rparr>\<rparr>,
      v2_Minio = (7::nat)\<rparr>
   \<and> GetStatus \<lparr>v2_Version = ''2'', v2_Error = ''disk read timeout'', v2_TimeStamp = zero_Time,
      v2_Sys = True, v2_Perf = \<lparr>pi_Drives = [], pi_Net = [],
        pi_NetParallel = \<lparr>npi_NodeCommon = ''node1'', npi_RemotePeers = []\<rparr>\<rparr>,
      v2_Minio = (0::nat)\<rparr>
   = GetStatus \<lparr>v2_Version = ''3'', v2_Error = ''disk read timeout'',
      v2_TimeStamp = zero_Time\<lparr>t_Year := 2022\<rparr>,
      v2_Sys = False, v2_Perf = \<lparr>pi_Drives = [], pi_Net = [],
        pi_NetParallel = \<lparr>npi_NodeCommon = ''node2'', npi_RemotePeers = []\<rparr>\<rparr>,
      v2_Minio = (7::nat)\<rparr>"
  using C5_GetStatus_depends_on_Error_only
    [of "\<lparr>v2_Version = ''2'', v2_Error = ''disk read timeout'', v2_TimeStamp = zero_Time,
      v2_Sys = True, v2_Perf = \<lparr>pi_Drives = [], pi_Net = [],
        pi_NetParallel = \<lparr>npi_NodeCommon = ''node1'', npi_RemotePeers = []\<rparr>\<rparr>,
      v2_Minio = (0::nat)\<rparr>"
     "\<lparr>v2_Version = ''3'', v2_Error = ''disk read timeout'',
      v2_TimeStamp = zero_Time\<lparr>t_Year := 2022\<rparr>,
      v2_Sys = False, v2_Perf = \<lparr>pi_Drives = [], pi_Net = [],
        pi_NetParallel = \<lparr>npi_NodeCommon = ''node2'', npi_RemotePeers = []\<rparr>\<rparr>,
      v2_Minio = (7::nat)\<rparr>"]
  by simp

text \<open>
  C7. For every HealthInfoV2 report, GetError returns exactly the top-level Error
  string, regardless of all other fields: it is the Error of any record built from
  arbitrary other fields.
\<close>

theorem C7_GetError_is_Error:
  "GetError info = v2_Error info
   \<and> GetError \<lparr>v2_Version = v, v2_Error = e, v2_TimeStamp = t, v2_Sys = s, v2_Perf = p,
        v2_Minio = m\<rparr> = e"
  by (simp add: GetError_def)

text \<open>
  C9. For every SysProcess record, GetOwner returns exactly the Username field, whatever
  the Uids and Gids hold.
\<close>

theorem C9_GetOwner_is_Username:
  "GetOwner sp = sp_Username sp
   \<and> GetOwner (sp\<lparr>sp_Uids := us, sp_Gids := gs\<rparr>) = sp_Username sp"
  by (simp add: GetOwner_def)

section \<open>Properties of String and JSON\<close>

subsection \<open>Helper lemmas\<close>






lemma or_panic_Panics:
  "or_panic r = Panics e \<longleftrightarrow> r = Inl e"
  by (cases r) (simp_all add: or_panic_def)


subsection \<open>The claims\<close>

text \<open>
  C2. The claim: every field tagged omitempty is absent from the compact output of
  String when it holds its zero value, the struct-typed fields (Sys, Perf, Minio,
  Latency, Throughput, the timestamp) included. The code does not do that for the
  struct-typed fields: the zero reports \<open>HealthInfoV0{}\<close> and \<open>HealthInfoV2{}\<close> are written
  with their zero timestamp and their empty sections, and the zero \<open>DrivePerfInfo\<close>
  with its zero latency and throughput.
\<close>

theorem C2_zero_struct_fields_are_written:
  "String_V0 sc zero_HealthInfoV0
     = Returns ''{\"timestamp\":\"0001-01-01T00:00:00Z\",\"sys\":{}}''
   \<and> String_V2 sc unit_package zero_HealthInfoV2
     = Returns ''{\"version\":\"\",\"timestamp\":\"0001-01-01T00:00:00Z\",\"sys\":{},\"perf\":{\"net_parallel\":{}},\"minio\":{}}''
   \<and> enc_DrivePerfInfo zero_DrivePerfInfo
     = Inr (JObject [(''path'', JString []),
         (''latency'', JObject [(''avg'', JFloat64 0), (''max'', JFloat64 0),
            (''min'', JFloat64 0), (''percentile_50'', JFloat64 0),
            (''percentile_90'', JFloat64 0), (''percentile_99'', JFloat64 0)]),
         (''throughput'', JObject [(''avg'', JInt 0), (''max'', JInt 0), (''min'', JInt 0),
            (''percentile_50'', JInt 0), (''percentile_90'', JInt 0),
            (''percentile_99'', JInt 0)])])"
  by code_simp

text \<open>
  C4. The claim: String and JSON never fail on any HealthInfoV0 or HealthInfoV2 value.
  The code panics on a report that holds a NaN (here a process's CPU percentage, or a
  drive's average latency) and on one whose timestamp lies in the year 10000, whatever
  the rest of the package declares.
\<close>

theorem C4_String_and_JSON_panic:
  "String_V0 sc nan_HealthInfoV0 = Panics UnsupportedValueError
   \<and> JSON_V0 sc nan_HealthInfoV0 = Panics UnsupportedValueError
   \<and> String_V2 sc unit_package nan_HealthInfoV2 = Panics UnsupportedValueError
   \<and> JSON_V2 sc unit_package nan_HealthInfoV2 = Panics UnsupportedValueError
   \<and> String_V2 sc pkg (info\<lparr>v2_TimeStamp := zero_Time\<lparr>t_Year := 10000\<rparr>\<rparr>)
       = Panics MarshalerError
   \<and> JSON_V2 sc pkg (info\<lparr>v2_TimeStamp := zero_Time\<lparr>t_Year := 10000\<rparr>\<rparr>)
       = Panics MarshalerError"
proof -
  have v0: "enc_HealthInfoV0 nan_HealthInfoV0 = Inl UnsupportedValueError"
    by code_simp
  have v2: "enc_HealthInfoV2 unit_package nan_HealthInfoV2 = Inl UnsupportedValueError"
    by code_simp
  have t: "timeEncoder (zero_Time\<lparr>t_Year := 10000\<rparr>) = Inl MarshalerError"
    by (simp add: timeEncoder_def zero_Time_def)
  have y: "enc_HealthInfoV2 pkg (info\<lparr>v2_TimeStamp := zero_Time\<lparr>t_Year := 10000\<rparr>\<rparr>)
      = Inl MarshalerError"
    by (simp add: enc_HealthInfoV2_def structEncoder_def field_def field_omitempty_def
        stringEncoder_def t)
  show ?thesis
    by (simp add: String_V0_def JSON_V0_def String_V2_def JSON_V2_def MarshalIndent_def
        Marshal_def or_panic_def v0 v2 y)
qed






end
